theory Spec2Isabelle
  imports Complex_Main
begin

section \<open>The training scheduler of twm/trainer.py\<close>

text \<open>
  A shallow embedding of the class \<open>Trainer\<close> of \<^verbatim>\<open>src/twm/trainer.py\<close>: the checks of
  its constructor, the prefill phase, the three pretraining sweeps, the budget arithmetic,
  the collect/train/evaluate/save loop of \<open>run\<close>, and the episode loop of \<open>_evaluate\<close>.

  Python numbers are modelled exactly: integers as \<open>int\<close>, the values that the code
  computes with true division or multiplies by a fraction as \<open>rat\<close> (scores as \<open>real\<close>);
  the rounding of IEEE floats is outside the model. Calls into the collaborators (the
  replay store, the world model, the actor-critic, the environments, the file system) are
  recorded as events on a trace, in the order the code makes them, and are taken to
  return; progress bars, the metrics summarizer and the logging backend are left out.
  A loop of the code that may run forever is a partial function into \<open>option\<close>: the
  value \<open>None\<close> says that it does not return.
\<close>

subsection \<open>Configuration, errors and events\<close>

text \<open>The keys of the \<open>config\<close> dictionary that the modelled code reads.\<close>

record config =
  buffer_prefill :: int
  pretrain_obs_p :: rat
  pretrain_dyn_p :: rat
  env_suite :: string
  budget :: rat
  pretrain_budget :: rat
  wm_train_steps :: int
  wm_batch_size :: int
  wm_sequence_length :: int
  ac_batch_size :: int
  ac_horizon :: int
  eval_every :: int
  save :: bool
  save_every :: int
  eval_episodes :: int
  final_eval_episodes :: int
  cpu_p :: rat
  seed :: "int option"

datatype error = ValueError | NotImplementedError | ZeroDivisionError

datatype policy = random_policy | collect_policy

datatype ckpt_value = ConfigV config | StateDictV | SizeV int

type_synonym checkpoint = "(string \<times> ckpt_value) list"

text \<open>
  The observable calls: \<open>replay_buffer.step(policy)\<close>, \<open>replay_buffer.metrics()\<close>,
  the three \<open>optimize_pretrain\<close> calls with the number of samples \<open>idx.numel()\<close> of the
  batch, \<open>ac.sync_target()\<close>, \<open>self._evaluate(is_final)\<close>, \<open>self._train_step()\<close> and
  \<open>torch.save(checkpoint, filename)\<close>.
\<close>

datatype event =
    Step policy
  | Metrics
  | OptimizePretrainObs int
  | OptimizePretrainDyn int
  | OptimizePretrainAc int
  | SyncTarget
  | Evaluate bool
  | TrainStep
  | TorchSave string checkpoint

subsection \<open>The replay store\<close>

record replay_buffer =
  rb_size :: int
  rb_capacity :: int

definition ReplayBuffer_init :: "int \<Rightarrow> replay_buffer" where
  \<comment> \<open>Modelled from the spec: the class ReplayBuffer is not among the sources. The store
      is created empty with a fixed capacity.\<close>
  "ReplayBuffer_init cap = \<lparr>rb_size = 0, rb_capacity = cap\<rparr>"

definition rb_step :: "replay_buffer \<Rightarrow> replay_buffer" where
  \<comment> \<open>Modelled from the spec: ReplayBuffer.step is not among the sources. It appends one
      transition, which increments \<open>size\<close> up to the capacity; \<open>size\<close> never exceeds it.\<close>
  "rb_step rb = rb\<lparr>rb_size := min (rb_size rb + 1) (rb_capacity rb)\<rparr>"

subsection \<open>The state of a run\<close>

text \<open>
  The attributes of the Trainer that \<open>run\<close> reads and writes (\<open>replay_buffer\<close>,
  \<open>last_eval\<close>), the local variables that its loops update (\<open>step_counter\<close> of \<open>run\<close>,
  \<open>budget\<close> of \<open>_pretrain\<close>, here \<open>local_budget\<close>), and the trace of calls made so far.
\<close>

record state =
  replay_buffer :: replay_buffer
  last_eval :: int
  step_counter :: rat
  local_budget :: rat
  trace :: "event list"

abbreviation size_of :: "state \<Rightarrow> int" where
  "size_of t \<equiv> rb_size (replay_buffer t)"

abbreviation capacity_of :: "state \<Rightarrow> int" where
  "capacity_of t \<equiv> rb_capacity (replay_buffer t)"

definition emit :: "event list \<Rightarrow> state \<Rightarrow> state" where
  "emit evs t = t\<lparr>trace := trace t @ evs\<rparr>"

subsection \<open>Trainer.__init__\<close>

definition create_env_from_config :: "config \<Rightarrow> error + unit" where
  \<comment> \<open>\<open>_create_env_from_config\<close>: the environment itself is a collaborator; the model keeps
      the branch that raises for an unknown suite.\<close>
  "create_env_from_config cfg =
     (if env_suite cfg = ''atari'' then Inr ()
      else if env_suite cfg = ''d4rl'' then Inr ()
      else if env_suite cfg = ''d3rl'' then Inr ()
      else Inl NotImplementedError)"

definition Trainer_init :: "config \<Rightarrow> int \<Rightarrow> error + state" where
  \<comment> \<open>The second argument is the capacity that \<open>ReplayBuffer(config, env)\<close> gives the store.\<close>
  "Trainer_init cfg cap =
     (if buffer_prefill cfg \<le> 0 then Inl ValueError
      else if pretrain_obs_p cfg + pretrain_dyn_p cfg > 1 then Inl ValueError
      else case create_env_from_config cfg of
             Inl e \<Rightarrow> Inl e
           | Inr _ \<Rightarrow> Inr \<lparr>replay_buffer = ReplayBuffer_init cap, last_eval = 0,
                          step_counter = 0, local_budget = 0, trace = []\<rparr>)"

subsection \<open>Prefill\<close>

definition do_step :: "policy \<Rightarrow> state \<Rightarrow> state" where
  "do_step p t = emit [Step p] (t\<lparr>replay_buffer := rb_step (replay_buffer t)\<rparr>)"

text \<open>
  \<open>for _ in range(config['buffer_prefill'] - 1)\<close>: one step and one read of the buffer
  metrics per iteration; the argument is the number of iterations left.
\<close>

fun prefill_loop :: "nat \<Rightarrow> state \<Rightarrow> state" where
  "prefill_loop 0 t = t"
| "prefill_loop (Suc n) t = prefill_loop n (emit [Metrics] (do_step random_policy t))"

definition prefill :: "config \<Rightarrow> state \<Rightarrow> state" where
  \<comment> \<open>The loop, then the final prefill step with its own read of the metrics.\<close>
  "prefill cfg t =
     emit [Metrics] (do_step random_policy (prefill_loop (nat (buffer_prefill cfg - 1)) t))"

subsection \<open>Pretraining\<close>

definition py_slice_to :: "int \<Rightarrow> int \<Rightarrow> int" where
  \<comment> \<open>The length of \<open>xs[:k]\<close> for \<open>len(xs) = n\<close>; \<open>xs[k:]\<close> holds the other \<open>n - py_slice_to n k\<close>.\<close>
  "py_slice_to n k = (if 0 \<le> k then min k n else max (n + k) 0)"

text \<open>
  The inner loop of the observation sweep, on the number \<open>n\<close> of indices left:
  \<open>while len(indices) > 0 and budget > 0\<close>.
\<close>

partial_function (option) obs_batches :: "int \<Rightarrow> int \<Rightarrow> state \<Rightarrow> state option" where
  "obs_batches wm_total_batch_size n t =
     (if 0 < n \<and> 0 < local_budget t then
        (let m = py_slice_to n wm_total_batch_size
         in obs_batches wm_total_batch_size (n - m)
              (emit [OptimizePretrainObs m] (t\<lparr>local_budget := local_budget t - of_int m\<rparr>)))
      else Some t)"

declare obs_batches.simps [code]

text \<open>\<open>while budget > 0: indices = torch.randperm(replay_buffer.size); ...\<close>\<close>

partial_function (option) obs_sweeps :: "int \<Rightarrow> state \<Rightarrow> state option" where
  "obs_sweeps wm_total_batch_size t =
     (if 0 < local_budget t then
        Option.bind (obs_batches wm_total_batch_size (size_of t) t)
          (obs_sweeps wm_total_batch_size)
      else Some t)"

declare obs_sweeps.simps [code]

text \<open>
  One pass \<open>for idx in replay_buffer.generate_uniform_indices(...)\<close> of the dynamics or
  the actor-critic sweep, with its \<open>break\<close>. The generator is not among the sources: the
  list holds, for each batch it yields, the count \<open>idx[:, :-2].numel()\<close>; the first argument is the
  optimize call of the sweep.
\<close>

fun sweep_pass :: "(int \<Rightarrow> event) \<Rightarrow> nat list \<Rightarrow> state \<Rightarrow> state" where
  "sweep_pass opt [] t = t"
| "sweep_pass opt (m # ms) t =
     (let t' = emit [opt (int m)] (t\<lparr>local_budget := local_budget t - of_nat m\<rparr>)
      in if local_budget t' \<le> 0 then t' else sweep_pass opt ms t')"

partial_function (option) sweeps :: "(int \<Rightarrow> event) \<Rightarrow> nat list \<Rightarrow> state \<Rightarrow> state option" where
  "sweeps opt batches t =
     (if 0 < local_budget t then sweeps opt batches (sweep_pass opt batches t) else Some t)"

declare sweeps.simps [code]

definition ac_pretrain_budget :: "config \<Rightarrow> rat" where
  \<comment> \<open>Line 289 of trainer.py, as written.\<close>
  "ac_pretrain_budget cfg = pretrain_budget cfg * (1 - pretrain_obs_p cfg + pretrain_dyn_p cfg)"

definition pretrain :: "config \<Rightarrow> nat list \<Rightarrow> nat list \<Rightarrow> state \<Rightarrow> state option" where
  \<comment> \<open>\<open>_pretrain\<close>; the two lists are the batches of one pass of the dynamics and of the
      actor-critic sweep.\<close>
  "pretrain cfg dyn_batches ac_batches t =
     Option.bind
       (obs_sweeps (wm_batch_size cfg * wm_sequence_length cfg)
          (t\<lparr>local_budget := pretrain_budget cfg * pretrain_obs_p cfg\<rparr>))
       (\<lambda>t1. Option.bind
          (sweeps OptimizePretrainDyn dyn_batches
             (t1\<lparr>local_budget := pretrain_budget cfg * pretrain_dyn_p cfg\<rparr>))
          (\<lambda>t2. Option.bind
             (sweeps OptimizePretrainAc ac_batches (t2\<lparr>local_budget := ac_pretrain_budget cfg\<rparr>))
             (\<lambda>t3. Some (emit [SyncTarget] t3))))"

subsection \<open>The main loop of run\<close>

definition evaluate_call :: "bool \<Rightarrow> state \<Rightarrow> state" where
  \<comment> \<open>What a call \<open>self._evaluate(is_final)\<close> does to the state of the run: it ends with
      \<open>self.last_eval = replay_buffer.size\<close>. Its episode loop is modelled on its own below.\<close>
  "evaluate_call is_final t = emit [Evaluate is_final] (t\<lparr>last_eval := size_of t\<rparr>)"





definition collect_body :: "config \<Rightarrow> state \<Rightarrow> state" where
  "collect_body cfg t =
     (let t1 = (if size_of t - last_eval t \<ge> eval_every cfg
                then emit [Metrics] (evaluate_call False t) else t);
          t2 = do_step collect_policy t1
      in t2\<lparr>step_counter := step_counter t2 + 1\<rparr>)"



definition train_body :: "rat \<Rightarrow> state \<Rightarrow> state" where
  "train_body te t = emit [TrainStep] (t\<lparr>step_counter := step_counter t - te\<rparr>)"



definition eval_phase :: "config \<Rightarrow> state \<Rightarrow> state" where
  "eval_phase cfg t =
     (if size_of t - last_eval t \<ge> eval_every cfg \<and> size_of t < capacity_of t
      then evaluate_call False t else t)"

definition make_checkpoint :: "config \<Rightarrow> state \<Rightarrow> checkpoint" where
  "make_checkpoint cfg t =
     [(''config'', ConfigV cfg), (''state_dict'', StateDictV), (''size'', SizeV (size_of t))]"

definition save_phase :: "config \<Rightarrow> state \<Rightarrow> state" where
  "save_phase cfg t =
     (if save cfg \<and> size_of t - last_eval t \<ge> save_every cfg \<and> size_of t < capacity_of t
      then emit [TorchSave ''agent.pt'' (make_checkpoint cfg t)] t else t)"

definition after_training :: "config \<Rightarrow> state \<Rightarrow> state" where
  \<comment> \<open>The rest of one pass of the outer loop, after the training phase.\<close>
  "after_training cfg t = save_phase cfg (eval_phase cfg (emit [Metrics] t))"





subsection \<open>The episode loop of _evaluate\<close>

text \<open>
  What one call \<open>eval_env.step(a)\<close> of the vectorised environment returns: one entry per
  environment of the rewards and of the two flags, and the \<open>lives\<close> entry of \<open>infos\<close> when
  there is one.
\<close>

record step_out =
  out_r :: "real list"
  out_terminated :: "bool list"
  out_truncated :: "bool list"
  out_lives :: "int list option"

text \<open>
  The local variables of the loop; \<open>env_steps\<close> counts the calls of \<open>eval_env.step\<close> and
  \<open>resets\<close> lists the seeds of the forced resets, in call order.
\<close>

record eval_state =
  scores :: "real list"
  current_scores :: "real list"
  finished :: "bool list"
  num_truncated :: nat
  eval_seed :: "int option"
  env_steps :: nat
  resets :: "int option list"


definition lives_of :: "step_out \<Rightarrow> int list" where
  \<comment> \<open>\<open>infos.get('lives', np.zeros_like(r))\<close>\<close>
  "lives_of out = (case out_lives out of None \<Rightarrow> map (\<lambda>_. 0) (out_r out) | Some ls \<Rightarrow> ls)"

definition add_rewards :: "nat \<Rightarrow> step_out \<Rightarrow> eval_state \<Rightarrow> eval_state" where
  \<comment> \<open>\<open>current_scores[not_finished] += r[not_finished]\<close>\<close>
  "add_rewards num_envs out s =
     s\<lparr>current_scores :=
         map (\<lambda>i. if \<not> finished s ! i then current_scores s ! i + out_r out ! i
                  else current_scores s ! i) [0..<num_envs]\<rparr>"

definition mark_one :: "step_out \<Rightarrow> eval_state \<Rightarrow> nat \<Rightarrow> eval_state" where
  \<comment> \<open>The body of \<open>for i in range(num_envs)\<close>.\<close>
  "mark_one out s i =
     (if \<not> finished s ! i then
        if out_truncated out ! i then
          s\<lparr>num_truncated := num_truncated s + 1, finished := (finished s)[i := True]\<rparr>
        else if out_terminated out ! i \<and> lives_of out ! i = 0 then
          s\<lparr>finished := (finished s)[i := True]\<rparr>
        else s
      else s)"

definition mark_finished :: "nat \<Rightarrow> step_out \<Rightarrow> eval_state \<Rightarrow> eval_state" where
  "mark_finished num_envs out s = fold (\<lambda>i s'. mark_one out s' i) [0..<num_envs] s"


definition step_envs :: "nat \<Rightarrow> step_out \<Rightarrow> eval_state \<Rightarrow> eval_state" where
  \<comment> \<open>The pass up to the test \<open>np.all(finished)\<close>: the step is counted, its rewards are
      added and the environments that ended are marked.\<close>
  "step_envs num_envs out s =
     mark_finished num_envs out (add_rewards num_envs out (s\<lparr>env_steps := env_steps s + 1\<rparr>))"
















section \<open>Reading traces and outcomes\<close>

text \<open>
  The properties below are stated on the trace of calls and on the state that a phase
  leaves. The functions of this section count and classify the events of a trace and name
  the inputs used as examples; none of them is part of the program.
\<close>

subsection \<open>Counting calls\<close>

fun is_step :: "event \<Rightarrow> bool" where
  "is_step (Step p) = True"
| "is_step e = False"

definition num_steps :: "event list \<Rightarrow> nat" where
  \<comment> \<open>The calls of \<open>replay_buffer.step\<close>, under either policy.\<close>
  "num_steps tr = length (filter is_step tr)"

definition collected :: "event list \<Rightarrow> nat" where
  \<comment> \<open>The steps of the main loop: those under the collection policy.\<close>
  "collected tr = length (filter (\<lambda>e. e = Step collect_policy) tr)"

definition rounds :: "event list \<Rightarrow> nat" where
  \<comment> \<open>The training rounds: the calls of \<open>_train_step\<close>.\<close>
  "rounds tr = length (filter (\<lambda>e. e = TrainStep) tr)"


definition sync_calls :: "event list \<Rightarrow> nat" where
  \<comment> \<open>The calls of \<open>ac.sync_target\<close>.\<close>
  "sync_calls tr = length (filter (\<lambda>e. e = SyncTarget) tr)"

fun obs_samples :: "event list \<Rightarrow> int" where
  "obs_samples [] = 0"
| "obs_samples (OptimizePretrainObs m # tr) = m + obs_samples tr"
| "obs_samples (e # tr) = obs_samples tr"

fun dyn_samples :: "event list \<Rightarrow> int" where
  "dyn_samples [] = 0"
| "dyn_samples (OptimizePretrainDyn m # tr) = m + dyn_samples tr"
| "dyn_samples (e # tr) = dyn_samples tr"

fun ac_samples :: "event list \<Rightarrow> int" where
  "ac_samples [] = 0"
| "ac_samples (OptimizePretrainAc m # tr) = m + ac_samples tr"
| "ac_samples (e # tr) = ac_samples tr"

definition sweep_samples :: "state option \<Rightarrow> (int \<times> int \<times> int) option" where
  \<comment> \<open>The samples that the observation, the dynamics and the actor-critic sweep consumed,
      read from the trace that pretraining leaves.\<close>
  "sweep_samples r =
     (case r of None \<Rightarrow> None
      | Some t \<Rightarrow> Some (obs_samples (trace t), dyn_samples (trace t), ac_samples (trace t)))"

subsection \<open>The events of each phase\<close>

definition prefill_events :: "nat \<Rightarrow> event list" where
  \<comment> \<open>What \<open>n\<close> prefill steps add to the trace.\<close>
  "prefill_events n = concat (replicate n [Step random_policy, Metrics])"

fun pretrain_event :: "event \<Rightarrow> bool" where
  "pretrain_event (OptimizePretrainObs m) = True"
| "pretrain_event (OptimizePretrainDyn m) = True"
| "pretrain_event (OptimizePretrainAc m) = True"
| "pretrain_event e = False"





definition final_events :: "config \<Rightarrow> int \<Rightarrow> event list" where
  \<comment> \<open>What the end of \<open>run\<close> adds to the trace when the store holds \<open>sz\<close> transitions.\<close>
  "final_events cfg sz =
     Evaluate True # Metrics #
     (if save cfg then
        [TorchSave ''agent_final.pt''
           [(''config'', ConfigV cfg), (''state_dict'', StateDictV), (''size'', SizeV sz)]]
      else [])"

fun is_save :: "event \<Rightarrow> bool" where
  "is_save (TorchSave f c) = True"
| "is_save e = False"

definition saves :: "event list \<Rightarrow> event list" where
  \<comment> \<open>The checkpoints written, in order.\<close>
  "saves tr = filter is_save tr"


subsection \<open>How a later state follows an earlier one\<close>

definition pre_follows :: "state \<Rightarrow> state \<Rightarrow> bool" where
  \<comment> \<open>Within pretraining: only optimize calls were added, and the store, \<open>last_eval\<close> and
      the step counter are as before.\<close>
  "pre_follows t t' \<longleftrightarrow>
     replay_buffer t' = replay_buffer t \<and> last_eval t' = last_eval t \<and>
     step_counter t' = step_counter t \<and>
     (\<exists>evs. trace t' = trace t @ evs \<and> list_all pretrain_event evs)"


subsection \<open>The outcome of a run\<close>





subsection \<open>The evaluation loop\<close>

definition ends_episode :: "step_out \<Rightarrow> nat \<Rightarrow> bool" where
  \<comment> \<open>The finishing flag of environment \<open>i\<close> in the answer of a step.\<close>
  "ends_episode out i \<longleftrightarrow>
     out_truncated out ! i \<or> (out_terminated out ! i \<and> lives_of out ! i = 0)"


subsection \<open>Example inputs\<close>

definition example_config :: config where
  "example_config =
     \<lparr>buffer_prefill = 2, pretrain_obs_p = 6/10, pretrain_dyn_p = 3/10, env_suite = ''atari'',
      budget = 50, pretrain_budget = 10, wm_train_steps = 1, wm_batch_size = 2,
      wm_sequence_length = 2, ac_batch_size = 2, ac_horizon = 2, eval_every = 3, save = True,
      save_every = 2, eval_episodes = 3, final_eval_episodes = 5, cpu_p = 1/2, seed = Some 0\<rparr>"

definition unit_batch_config :: config where
  "unit_batch_config = example_config\<lparr>wm_batch_size := 1, wm_sequence_length := 1\<rparr>"

definition empty_state :: "int \<Rightarrow> state" where
  \<comment> \<open>The Trainer as constructed, with a store of the given capacity.\<close>
  "empty_state cap =
     \<lparr>replay_buffer = \<lparr>rb_size = 0, rb_capacity = cap\<rparr>, last_eval = 0, step_counter = 0,
      local_budget = 0, trace = []\<rparr>"



section \<open>Properties\<close>

subsection \<open>The state after each primitive\<close>

lemma emit_simps [simp]:
  "replay_buffer (emit evs t) = replay_buffer t"
  "last_eval (emit evs t) = last_eval t"
  "step_counter (emit evs t) = step_counter t"
  "local_budget (emit evs t) = local_budget t"
  "trace (emit evs t) = trace t @ evs"
  by (simp_all add: emit_def)

lemma rb_step_simps [simp]:
  "rb_capacity (rb_step rb) = rb_capacity rb"
  "rb_size (rb_step rb) = min (rb_size rb + 1) (rb_capacity rb)"
  by (simp_all add: rb_step_def)

lemma do_step_simps [simp]:
  "replay_buffer (do_step p t) = rb_step (replay_buffer t)"
  "last_eval (do_step p t) = last_eval t"
  "step_counter (do_step p t) = step_counter t"
  "local_budget (do_step p t) = local_budget t"
  "trace (do_step p t) = trace t @ [Step p]"
  by (simp_all add: do_step_def)

lemma evaluate_call_simps [simp]:
  "replay_buffer (evaluate_call b t) = replay_buffer t"
  "last_eval (evaluate_call b t) = size_of t"
  "step_counter (evaluate_call b t) = step_counter t"
  "local_budget (evaluate_call b t) = local_budget t"
  "trace (evaluate_call b t) = trace t @ [Evaluate b]"
  by (simp_all add: evaluate_call_def)

lemma num_steps_simps [simp]:
  "num_steps [] = 0"
  "num_steps (e # tr) = (if is_step e then Suc (num_steps tr) else num_steps tr)"
  "num_steps (tr @ tr') = num_steps tr + num_steps tr'"
  by (simp_all add: num_steps_def)

lemma collected_simps [simp]:
  "collected [] = 0"
  "collected (e # tr) = (if e = Step collect_policy then Suc (collected tr) else collected tr)"
  "collected (tr @ tr') = collected tr + collected tr'"
  by (simp_all add: collected_def)

lemma rounds_simps [simp]:
  "rounds [] = 0"
  "rounds (e # tr) = (if e = TrainStep then Suc (rounds tr) else rounds tr)"
  "rounds (tr @ tr') = rounds tr + rounds tr'"
  by (simp_all add: rounds_def)

subsection \<open>The loops of the main phase\<close>





lemma collect_body_capacity [simp]:
  "capacity_of (collect_body cfg t) = capacity_of t"
  by (simp add: collect_body_def Let_def)


lemma train_body_simps [simp]:
  "replay_buffer (train_body te t) = replay_buffer t"
  "last_eval (train_body te t) = last_eval t"
  "step_counter (train_body te t) = step_counter t - te"
  "local_budget (train_body te t) = local_budget t"
  "trace (train_body te t) = trace t @ [TrainStep]"
  by (simp_all add: train_body_def)

lemma after_training_simps [simp]:
  "replay_buffer (after_training cfg t) = replay_buffer t"
  "step_counter (after_training cfg t) = step_counter t"
  "local_budget (after_training cfg t) = local_budget t"
  by (simp_all add: after_training_def save_phase_def eval_phase_def)









subsection \<open>Prefill\<close>

lemma prefill_events_Suc: "prefill_events (Suc n) = [Step random_policy, Metrics] @ prefill_events n"
  by (simp add: prefill_events_def)

lemma prefill_events_snoc: "prefill_events n @ [Step random_policy, Metrics] = prefill_events (Suc n)"
  by (induction n) (simp_all add: prefill_events_def)

lemma num_steps_prefill_events [simp]: "num_steps (prefill_events n) = n"
  by (induction n) (simp_all add: prefill_events_def)

lemma prefill_loop_spec:
  "replay_buffer (prefill_loop n t) =
     (replay_buffer t)\<lparr>rb_size := (if n = 0 then size_of t else min (size_of t + int n) (capacity_of t))\<rparr> \<and>
   last_eval (prefill_loop n t) = last_eval t \<and>
   step_counter (prefill_loop n t) = step_counter t \<and>
   local_budget (prefill_loop n t) = local_budget t \<and>
   trace (prefill_loop n t) = trace t @ prefill_events n"
proof (induction n arbitrary: t)
  case 0
  then show ?case by (simp add: prefill_events_def)
next
  case (Suc n)
  show ?case
    by (simp add: Suc prefill_events_Suc rb_step_def min_def)
qed

lemma prefill_spec:
  assumes "0 < buffer_prefill cfg"
  shows "replay_buffer (prefill cfg t) =
           (replay_buffer t)\<lparr>rb_size := min (size_of t + buffer_prefill cfg) (capacity_of t)\<rparr>"
    and "last_eval (prefill cfg t) = last_eval t"
    and "trace (prefill cfg t) = trace t @ prefill_events (nat (buffer_prefill cfg))"
proof -
  let ?n = "nat (buffer_prefill cfg - 1)"
  have n: "Suc ?n = nat (buffer_prefill cfg)" using assms by simp
  have i: "int ?n = buffer_prefill cfg - 1" using assms by simp
  show "replay_buffer (prefill cfg t) =
           (replay_buffer t)\<lparr>rb_size := min (size_of t + buffer_prefill cfg) (capacity_of t)\<rparr>"
    unfolding prefill_def using i assms
    by (auto simp add: prefill_loop_spec rb_step_def min_def)
  show "last_eval (prefill cfg t) = last_eval t"
    by (simp add: prefill_def prefill_loop_spec)
  have "trace (prefill cfg t) = trace t @ (prefill_events ?n @ [Step random_policy, Metrics])"
    by (simp add: prefill_def prefill_loop_spec)
  then show "trace (prefill cfg t) = trace t @ prefill_events (nat (buffer_prefill cfg))"
    by (simp only: prefill_events_snoc n)
qed

subsection \<open>Pretraining\<close>



lemma pre_follows_budget:
  "pre_follows t t' \<Longrightarrow> pre_follows (t\<lparr>local_budget := b\<rparr>) t'"
  by (simp add: pre_follows_def)






subsection \<open>The constructor\<close>

lemma Trainer_init_Inr:
  assumes "Trainer_init cfg cap = Inr t"
  shows "0 < buffer_prefill cfg" "pretrain_obs_p cfg + pretrain_dyn_p cfg \<le> 1" "t = empty_state cap"
  using assms
  by (auto simp: Trainer_init_def empty_state_def ReplayBuffer_init_def
      split: if_splits sum.splits)




subsection \<open>The prefill phase of an accepted configuration\<close>

text \<open>
  Claim C9, as amended. For a configuration that the constructor accepts, and starting
  from the empty store, the prefill phase makes exactly \<open>buffer_prefill\<close> calls of
  \<open>replay_buffer.step\<close>, all with the random policy and each followed by a read of the
  buffer metrics. The size afterwards is the smaller of \<open>buffer_prefill\<close> and the
  capacity, hence \<open>buffer_prefill\<close> whenever \<open>buffer_prefill \<le> capacity\<close>.
\<close>
theorem prefill_appends_buffer_prefill:
  assumes "Trainer_init cfg cap = Inr t"
  shows "trace (prefill cfg t) = prefill_events (nat (buffer_prefill cfg)) \<and>
         num_steps (trace (prefill cfg t)) = nat (buffer_prefill cfg) \<and>
         size_of (prefill cfg t) = min (buffer_prefill cfg) cap \<and>
         (buffer_prefill cfg \<le> cap \<longrightarrow> size_of (prefill cfg t) = buffer_prefill cfg)"
proof -
  from Trainer_init_Inr[OF assms] have p: "0 < buffer_prefill cfg" and t: "t = empty_state cap"
    by simp_all
  show ?thesis using prefill_spec[OF p, of t] t by (simp add: empty_state_def)
qed

theorem prefill_appends_buffer_prefill_witness:
  "num_steps (trace (prefill (example_config\<lparr>buffer_prefill := 10\<rparr>) (empty_state 100))) = 10 \<and>
   size_of (prefill (example_config\<lparr>buffer_prefill := 10\<rparr>) (empty_state 100)) = 10"
proof -
  have "Trainer_init (example_config\<lparr>buffer_prefill := 10\<rparr>) 100 = Inr (empty_state 100)"
    by (simp add: Trainer_init_def example_config_def empty_state_def create_env_from_config_def
      ReplayBuffer_init_def)
  from prefill_appends_buffer_prefill[OF this] show ?thesis by (simp add: example_config_def)
qed

text \<open>
  Claim C9 as stated fails when the prefill exceeds the capacity.
  With a prefill of 3 and a store of capacity 2 the constructor accepts the configuration,
  the prefill phase makes 3 step calls, and the size afterwards is 2, not 3.
\<close>
theorem prefill_size_counterexample:
  "Trainer_init (example_config\<lparr>buffer_prefill := 3\<rparr>) 2 = Inr (empty_state 2) \<and>
   num_steps (trace (prefill (example_config\<lparr>buffer_prefill := 3\<rparr>) (empty_state 2))) = 3 \<and>
   size_of (prefill (example_config\<lparr>buffer_prefill := 3\<rparr>) (empty_state 2)) = 2"
  by (simp add: Trainer_init_def example_config_def empty_state_def create_env_from_config_def
      ReplayBuffer_init_def prefill_def numeral_2_eq_2 rb_step_def do_step_def emit_def)

subsection \<open>The run as a whole\<close>



lemma prefill_events_counts [simp]:
  "collected (prefill_events n) = 0" "rounds (prefill_events n) = 0"
  by (induction n) (simp_all add: prefill_events_def)












subsection \<open>Degenerate budget arithmetic\<close>










subsection \<open>The fractional step counter\<close>












subsection \<open>Pretraining returns\<close>







subsection \<open>The trace of a run\<close>


subsection \<open>The target synchronisation\<close>

lemma sync_calls_simps [simp]:
  "sync_calls [] = 0"
  "sync_calls (e # tr) = (if e = SyncTarget then Suc (sync_calls tr) else sync_calls tr)"
  "sync_calls (tr @ tr') = sync_calls tr + sync_calls tr'"
  by (simp_all add: sync_calls_def)




lemma sync_calls_prefill [simp]: "sync_calls (prefill_events n) = 0"
  by (induction n) (simp_all add: prefill_events_def)

lemma sync_calls_final [simp]: "sync_calls (final_events cfg sz) = 0"
  by (simp add: final_events_def)









subsection \<open>Checkpoints\<close>

lemma saves_simps [simp]:
  "saves [] = []"
  "saves (e # tr) = (if is_save e then e # saves tr else saves tr)"
  "saves (tr @ tr') = saves tr @ saves tr'"
  by (simp_all add: saves_def)


lemma saves_prefill [simp]: "saves (prefill_events n) = []"
  by (induction n) (simp_all add: prefill_events_def)











lemma after_training_never_saves:
  assumes "eval_every cfg \<le> save_every cfg" "0 < save_every cfg"
  shows "saves (trace (after_training cfg t)) = saves (trace t)"
  using assms by (simp add: after_training_def save_phase_def eval_phase_def)




subsection \<open>The samples of the pretraining sweeps\<close>

lemma ac_pretrain_budget_excess:
  "ac_pretrain_budget cfg =
     pretrain_budget cfg * (1 - pretrain_obs_p cfg - pretrain_dyn_p cfg) +
     2 * (pretrain_budget cfg * pretrain_dyn_p cfg)"
  by (simp add: ac_pretrain_budget_def algebra_simps)

text \<open>
  Claim C2 at a failing input. The configuration has \<open>pretrain_budget = 10\<close>,
  \<open>pretrain_obs_p = 0.6\<close> and \<open>pretrain_dyn_p = 0.3\<close>, which the constructor accepts, and every
  batch holds one sample. The actor-critic sweep is budgeted with \<open>10 * (1 - 0.6 + 0.3) = 7\<close>
  samples where the claim has \<open>10 * (1 - 0.6 - 0.3) = 1\<close>; the three sweeps consume 6, 3 and
  7 samples, 16 in all, more than the pretraining budget of 10.
\<close>
theorem pretrain_ac_budget_at_input:
  "Trainer_init unit_batch_config 8 = Inr (empty_state 8) \<and>
   pretrain_budget unit_batch_config *
     (1 - pretrain_obs_p unit_batch_config - pretrain_dyn_p unit_batch_config) = 1 \<and>
   ac_pretrain_budget unit_batch_config = 7 \<and>
   sweep_samples (pretrain unit_batch_config [1] [1] (prefill unit_batch_config (empty_state 8))) =
     Some (6, 3, 7)"
  by (simp add: unit_batch_config_def Trainer_init_def create_env_from_config_def
      ReplayBuffer_init_def sweep_samples_def pretrain_def prefill_def example_config_def
      empty_state_def do_step_def emit_def rb_step_def numeral_2_eq_2 obs_sweeps.simps
      obs_batches.simps sweeps.simps py_slice_to_def ac_pretrain_budget_def Let_def)

subsection \<open>One step of the evaluation\<close>

lemma mark_one_simps [simp]:
  "scores (mark_one out s i) = scores s"
  "current_scores (mark_one out s i) = current_scores s"
  "env_steps (mark_one out s i) = env_steps s"
  "resets (mark_one out s i) = resets s"
  "eval_seed (mark_one out s i) = eval_seed s"
  "finished (mark_one out s i) =
     (if \<not> finished s ! i \<and> ends_episode out i then (finished s)[i := True] else finished s)"
  by (auto simp: mark_one_def ends_episode_def)

lemma mark_fold:
  "scores (fold (\<lambda>i s'. mark_one out s' i) [0..<k] s) = scores s \<and>
   current_scores (fold (\<lambda>i s'. mark_one out s' i) [0..<k] s) = current_scores s \<and>
   env_steps (fold (\<lambda>i s'. mark_one out s' i) [0..<k] s) = env_steps s \<and>
   resets (fold (\<lambda>i s'. mark_one out s' i) [0..<k] s) = resets s \<and>
   eval_seed (fold (\<lambda>i s'. mark_one out s' i) [0..<k] s) = eval_seed s \<and>
   length (finished (fold (\<lambda>i s'. mark_one out s' i) [0..<k] s)) = length (finished s) \<and>
   (\<forall>j < length (finished s).
      finished (fold (\<lambda>i s'. mark_one out s' i) [0..<k] s) ! j =
        (finished s ! j \<or> (j < k \<and> ends_episode out j)))"
proof (induction k)
  case 0
  then show ?case by simp
next
  case (Suc k)
  let ?F = "fold (\<lambda>i s'. mark_one out s' i) [0..<k] s"
  have upd: "(finished ?F)[k := True] ! j = (if j = k then True else finished ?F ! j)"
    if "j < length (finished s)" for j
    using that Suc by (cases "j = k") simp_all
  have "finished (mark_one out ?F k) ! j = (finished s ! j \<or> (j < Suc k \<and> ends_episode out j))"
    if j: "j < length (finished s)" for j
  proof (cases "\<not> finished ?F ! k \<and> ends_episode out k")
    case True
    with upd[OF j] Suc j show ?thesis by (auto simp: less_Suc_eq)
  next
    case False
    with Suc j show ?thesis by (auto simp: less_Suc_eq)
  qed
  with Suc show ?case by simp
qed





lemma step_envs_resets [simp]: "resets (step_envs n out s) = resets s"
  using mark_fold[of out n "add_rewards n out (s\<lparr>env_steps := env_steps s + 1\<rparr>)"]
  by (simp add: step_envs_def mark_finished_def add_rewards_def)





subsection \<open>The evaluation returns\<close>





subsection \<open>The aggregates\<close>










end
